theory Spec2Isabelle
  imports Main
begin

section \<open>Game state and event payloads (gameTypes.ts)\<close>

text \<open>
  Identities, table identifiers and transaction signatures are JavaScript strings.
  \<open>Date.now()\<close> is a number of milliseconds; it is passed to the reducer as an
  explicit argument.
\<close>

record Move =
  player :: string
  timestamp :: nat

text \<open>The optional field \<open>cardCount\<close> of a move is never written by the reducer.\<close>

text \<open>
  The normalised event union. \<open>mapDecodedToPayload\<close> also builds the \<open>gameOver\<close> and
  \<open>gameWinner\<close> shapes, so they are constructors here. The first argument of every
  constructor is the table identifier.
\<close>

datatype GameEventPayload =
    LiarsTableCreated string
  | PlayerJoined string string
  | SuffleCardsForPlayer string string string
  | RoundStarted string
  | TableTrun string string
  | CardPlaced string string
  | LiarCalled string string
  | EmptyBulletFired string string
  | PlayerEleminated string string
  | GameOver string
  | GameWinner string string

record GameState =
  tableId :: string
  players :: "string list"
  activePlayers :: "string list"
  currentTurn :: "string option"
  moves :: "Move list"
  roundActive :: bool
  liarCaller :: "string option"
  lastEvent :: "GameEventPayload option"

definition createInitialGameState :: "string \<Rightarrow> GameState" where
  "createInitialGameState tid =
     \<lparr> tableId = tid, players = [], activePlayers = [], currentTurn = None,
       moves = [], roundActive = False, liarCaller = None, lastEvent = None \<rparr>"

section \<open>The state reducer (useGameEvents.ts, updateGameState)\<close>

text \<open>
  \<open>updateGameState now payload prev\<close> is the updater that \<open>updateGameState\<close> hands to
  \<open>setGameState\<close>: one equation per \<open>case\<close> of the \<open>switch\<close>, the last four being the
  \<open>default\<close> branch. \<open>now\<close> is the value of \<open>Date.now()\<close>.
\<close>

fun updateGameState :: "nat \<Rightarrow> GameEventPayload \<Rightarrow> GameState \<Rightarrow> GameState" where
  "updateGameState now (PlayerJoined t p) prev =
     (let alreadyExists = (p \<in> set (players prev)) in
      prev\<lparr> players := (if alreadyExists then players prev else players prev @ [p]),
            activePlayers :=
              (if alreadyExists then activePlayers prev else activePlayers prev @ [p]),
            lastEvent := Some (PlayerJoined t p) \<rparr>)"
| "updateGameState now (RoundStarted t) prev =
     prev\<lparr> roundActive := True, currentTurn := None, moves := [], liarCaller := None,
           lastEvent := Some (RoundStarted t) \<rparr>"
| "updateGameState now (SuffleCardsForPlayer t p nxt) prev =
     prev\<lparr> currentTurn := Some nxt, lastEvent := Some (SuffleCardsForPlayer t p nxt) \<rparr>"
| "updateGameState now (TableTrun t p) prev =
     prev\<lparr> currentTurn := Some p, lastEvent := Some (TableTrun t p) \<rparr>"
| "updateGameState now (CardPlaced t p) prev =
     prev\<lparr> moves := moves prev @ [\<lparr> player = p, timestamp = now \<rparr>],
           lastEvent := Some (CardPlaced t p) \<rparr>"
| "updateGameState now (LiarCalled t c) prev =
     prev\<lparr> liarCaller := Some c, lastEvent := Some (LiarCalled t c) \<rparr>"
| "updateGameState now (PlayerEleminated t p) prev =
     prev\<lparr> activePlayers := filter (\<lambda>q. q \<noteq> p) (activePlayers prev),
           lastEvent := Some (PlayerEleminated t p) \<rparr>"
| "updateGameState now (LiarsTableCreated t) prev =
     prev\<lparr> lastEvent := Some (LiarsTableCreated t) \<rparr>"
| "updateGameState now (EmptyBulletFired t p) prev =
     prev\<lparr> lastEvent := Some (EmptyBulletFired t p) \<rparr>"
| "updateGameState now (GameOver t) prev =
     prev\<lparr> lastEvent := Some (GameOver t) \<rparr>"
| "updateGameState now (GameWinner t p) prev =
     prev\<lparr> lastEvent := Some (GameWinner t p) \<rparr>"

text \<open>
  A sequence of decoded events, each with the clock reading at which it is applied,
  reduced from left to right (the order in which the poller delivers them).
\<close>

fun applyEvents :: "GameState \<Rightarrow> (nat \<times> GameEventPayload) list \<Rightarrow> GameState" where
  "applyEvents s [] = s"
| "applyEvents s ((now, e) # es) = applyEvents (updateGameState now e s) es"

text \<open>The identities that an event sequence can put into \<open>currentTurn\<close>.\<close>

fun turnCarried :: "GameEventPayload \<Rightarrow> string option" where
  "turnCarried (SuffleCardsForPlayer t p nxt) = Some nxt"
| "turnCarried (TableTrun t p) = Some p"
| "turnCarried _ = None"

fun isJoinOrEliminate :: "GameEventPayload \<Rightarrow> bool" where
  "isJoinOrEliminate (PlayerJoined t p) = True"
| "isJoinOrEliminate (PlayerEleminated t p) = True"
| "isJoinOrEliminate _ = False"

section \<open>Connection health monitor (useConnectionStatus)\<close>

datatype ConnectionStatus = Connected | Disconnected | Reconnecting

text \<open>The outcome of one \<open>connection.getSlot()\<close> probe: resolved or rejected.\<close>

datatype ProbeOutcome = ProbeOk | ProbeFailed

record HealthState =
  status :: ConnectionStatus
  failCount :: nat

text \<open>\<open>useState("connected")\<close> and \<open>useRef(0)\<close>.\<close>

definition initialHealth :: HealthState where
  "initialHealth = \<lparr> status = Connected, failCount = 0 \<rparr>"

text \<open>
  The handlers of the probe issued when the effect mounts (``Initial check''): a
  rejection sets the status to disconnected and the counter to 1.
\<close>

fun initialCheck :: "ProbeOutcome \<Rightarrow> HealthState \<Rightarrow> HealthState" where
  "initialCheck ProbeOk st = st\<lparr> status := Connected, failCount := 0 \<rparr>"
| "initialCheck ProbeFailed st = st\<lparr> status := Disconnected, failCount := 1 \<rparr>"

text \<open>The handlers of the probe issued on every tick of \<open>setInterval\<close>.\<close>

fun healthCheck :: "ProbeOutcome \<Rightarrow> HealthState \<Rightarrow> HealthState" where
  "healthCheck ProbeOk st = st\<lparr> failCount := 0, status := Connected \<rparr>"
| "healthCheck ProbeFailed st =
     (let n = failCount st + 1 in
      st\<lparr> failCount := n, status := (if n \<ge> 2 then Disconnected else Reconnecting) \<rparr>)"

text \<open>
  The hook over a sequence of probe outcomes, in the order in which the probes settle:
  the first outcome is that of the mount-time probe, the others those of the periodic
  probes.
\<close>

fun useConnectionStatus :: "ProbeOutcome list \<Rightarrow> HealthState" where
  "useConnectionStatus [] = initialHealth"
| "useConnectionStatus (x # xs) =
     foldl (\<lambda>st y. healthCheck y st) (initialCheck x initialHealth) xs"

text \<open>The number of failures since the last success (or since the start).\<close>

definition trailingFailures :: "ProbeOutcome list \<Rightarrow> nat" where
  "trailingFailures xs = length (takeWhile (\<lambda>y. y = ProbeFailed) (rev xs))"

section \<open>Card cache store (loadCachedCards, saveCachedCards, clearCardCache)\<close>

record DecryptedCard =
  shape :: int
  "value" :: int

record CardCache =
  fingerprint :: string
  cards :: "DecryptedCard list"

text \<open>
  A 128-bit handle as the account decoder hands it over, in the shapes that
  \<open>extractHandle\<close> tells apart: an object with a truthy \<open>_bn\<close> field whose
  \<open>toString()\<close> is the decimal numeral, an object whose field \<open>"0"\<close> holds the number
  (a tuple struct), an array of numbers, and \<open>null\<close> or \<open>undefined\<close>.
\<close>

datatype Euint128 =
    HasBn nat
  | Tuple0 nat
  | Arr "nat list"
  | Missing

record EncryptedCard =
  shapeHandle :: Euint128
  valueHandle :: Euint128

fun showNat :: "nat \<Rightarrow> string" where
  "showNat n =
     (if n < 10 then [''0123456789'' ! n]
      else showNat (n div 10) @ [''0123456789'' ! (n mod 10)])"

fun joinWith :: "string \<Rightarrow> string list \<Rightarrow> string" where
  "joinWith sep [] = []"
| "joinWith sep [x] = x"
| "joinWith sep (x # y # ys) = x @ sep @ joinWith sep (y # ys)"

text \<open>
  \<open>x?.toString?.()\<close>: \<open>None\<close> is \<open>undefined\<close>. A plain object prints as
  \<open>[object Object]\<close>, an array as its elements joined by commas.
\<close>

fun toStringJS :: "Euint128 \<Rightarrow> string option" where
  "toStringJS (HasBn n) = Some (showNat n)"
| "toStringJS (Tuple0 n) = Some ''[object Object]''"
| "toStringJS (Arr ns) = Some (joinWith '','' (map showNat ns))"
| "toStringJS Missing = None"

definition orEmpty :: "string option \<Rightarrow> string" where
  "orEmpty x = (case x of None \<Rightarrow> [] | Some s \<Rightarrow> s)"

definition getCardCacheKey :: "string \<Rightarrow> string \<Rightarrow> string" where
  "getCardCacheKey tid wallet = ''liar-cards-'' @ tid @ ''-'' @ wallet"

definition getEncryptedFingerprint :: "EncryptedCard list \<Rightarrow> string" where
  "getEncryptedFingerprint encryptedCards =
     joinWith ''|''
       (map (\<lambda>c. orEmpty (toStringJS (shapeHandle c)) @ '':'' @
                  orEmpty (toStringJS (valueHandle c)))
            encryptedCards)"

text \<open>
  \<open>localStorage\<close>: a map from keys to raw items, told apart by what the body of
  \<open>loadCachedCards\<close> does with them. \<open>Entry c\<close> is the JSON text of the cache record
  \<open>c\<close> (what \<open>saveCachedCards\<close> writes). \<open>Unreadable\<close> is a raw item on which the
  body leaves through \<open>if (!raw)\<close> or through its \<open>catch\<close> before any comparison: the
  empty string, a text that \<open>JSON.parse\<close> rejects, or the text \<open>null\<close>. \<open>Parsed fp
  noCards\<close> is a text that parses to any other value that is not a cache record (such as
  \<open>{}\<close>): \<open>fp\<close> is its \<open>fingerprint\<close> field when that is a string, and \<open>noCards\<close>
  tells that its \<open>cards\<close> field is \<open>undefined\<close> or \<open>null\<close>, so that reading
  \<open>cards.length\<close> throws; otherwise \<open>cards.length > 0\<close> is false. (A value whose
  \<open>cards\<close> field has a positive length without being a list of cards is not
  represented.)
\<close>

datatype StoredItem = Unreadable | Entry CardCache | Parsed "string option" bool

type_synonym LocalStorage = "string \<rightharpoonup> StoredItem"

definition loadCachedCards ::
  "LocalStorage \<Rightarrow> string \<Rightarrow> string \<Rightarrow> EncryptedCard list
     \<Rightarrow> DecryptedCard list option \<times> LocalStorage" where
  "loadCachedCards ls tid wallet encryptedCards =
     (let key = getCardCacheKey tid wallet in
      case ls key of
        None \<Rightarrow> (None, ls)
      | Some Unreadable \<Rightarrow> (None, ls)
      | Some (Parsed fp noCards) \<Rightarrow>
          (let currentFingerprint = getEncryptedFingerprint encryptedCards in
           if fp = Some currentFingerprint \<and> noCards then (None, ls)
           else (None, ls(key := None)))
      | Some (Entry cached) \<Rightarrow>
          (let currentFingerprint = getEncryptedFingerprint encryptedCards in
           if fingerprint cached = currentFingerprint \<and> length (cards cached) > 0
           then (Some (cards cached), ls)
           else (None, ls(key := None))))"

definition saveCachedCards ::
  "LocalStorage \<Rightarrow> string \<Rightarrow> string \<Rightarrow> EncryptedCard list \<Rightarrow> DecryptedCard list
     \<Rightarrow> LocalStorage" where
  "saveCachedCards ls tid wallet encryptedCards cs =
     ls(getCardCacheKey tid wallet \<mapsto>
          Entry \<lparr> fingerprint = getEncryptedFingerprint encryptedCards, cards = cs \<rparr>)"

definition clearCardCache :: "LocalStorage \<Rightarrow> string \<Rightarrow> string \<Rightarrow> LocalStorage" where
  "clearCardCache ls tid wallet = ls(getCardCacheKey tid wallet := None)"

section \<open>Event decoding (useGameEvents.ts, mapDecodedToPayload)\<close>

text \<open>
  A thrown exception or a rejected promise, with its message. Every \<open>try\<close>/\<open>catch\<close>
  of the source is a case distinction on \<open>Inl\<close>.
\<close>

datatype js_error = Thrown string

definition bindE :: "js_error + 'a \<Rightarrow> ('a \<Rightarrow> js_error + 'b) \<Rightarrow> js_error + 'b" where
  "bindE m f = (case m of Inl e \<Rightarrow> Inl e | Inr x \<Rightarrow> f x)"

text \<open>
  The data of a decoded program event: each field already rendered by \<open>toString()\<close>,
  \<open>None\<close> where the field is absent (calling \<open>toString\<close> on it throws).
\<close>

record EventData =
  data_tableId :: "string option"
  data_player :: "string option"
  data_next :: "string option"
  data_caller :: "string option"

record Decoded =
  name :: string
  data :: EventData

definition fieldToString :: "string option \<Rightarrow> js_error + string" where
  "fieldToString x =
     (case x of None \<Rightarrow> Inl (Thrown ''TypeError'') | Some s \<Rightarrow> Inr s)"

definition mapDecodedToPayload ::
  "Decoded \<Rightarrow> string \<Rightarrow> js_error + GameEventPayload option" where
  "mapDecodedToPayload decoded tid =
     (let d = data decoded in
      if (case data_tableId d of None \<Rightarrow> False | Some t \<Rightarrow> t \<noteq> [] \<and> t \<noteq> tid)
      then Inr None
      else if name decoded = ''liarsTableCreated'' then
        bindE (fieldToString (data_tableId d)) (\<lambda>t. Inr (Some (LiarsTableCreated t)))
      else if name decoded = ''playerJoined'' then
        bindE (fieldToString (data_tableId d)) (\<lambda>t.
        bindE (fieldToString (data_player d)) (\<lambda>p. Inr (Some (PlayerJoined t p))))
      else if name decoded = ''suffleCardsForPlayer'' then
        bindE (fieldToString (data_tableId d)) (\<lambda>t.
        bindE (fieldToString (data_player d)) (\<lambda>p.
        bindE (fieldToString (data_next d)) (\<lambda>n. Inr (Some (SuffleCardsForPlayer t p n)))))
      else if name decoded = ''roundStarted'' then
        bindE (fieldToString (data_tableId d)) (\<lambda>t. Inr (Some (RoundStarted t)))
      else if name decoded = ''tableTrun'' then
        bindE (fieldToString (data_tableId d)) (\<lambda>t.
        bindE (fieldToString (data_player d)) (\<lambda>p. Inr (Some (TableTrun t p))))
      else if name decoded = ''cardPlaced'' then
        bindE (fieldToString (data_tableId d)) (\<lambda>t.
        bindE (fieldToString (data_player d)) (\<lambda>p. Inr (Some (CardPlaced t p))))
      else if name decoded = ''liarCalled'' then
        bindE (fieldToString (data_tableId d)) (\<lambda>t.
        bindE (fieldToString (data_caller d)) (\<lambda>c. Inr (Some (LiarCalled t c))))
      else if name decoded = ''emptyBulletFired'' then
        bindE (fieldToString (data_tableId d)) (\<lambda>t.
        bindE (fieldToString (data_player d)) (\<lambda>p. Inr (Some (EmptyBulletFired t p))))
      else if name decoded = ''playerEleminated'' then
        bindE (fieldToString (data_tableId d)) (\<lambda>t.
        bindE (fieldToString (data_player d)) (\<lambda>p. Inr (Some (PlayerEleminated t p))))
      else if name decoded = ''gameOver'' then
        bindE (fieldToString (data_tableId d)) (\<lambda>t. Inr (Some (GameOver t)))
      else if name decoded = ''gameWinner'' then
        bindE (fieldToString (data_tableId d)) (\<lambda>t.
        bindE (fieldToString (data_player d)) (\<lambda>p. Inr (Some (GameWinner t p))))
      else Inr None)"

section \<open>Transaction poller (useGameEvents.ts, poll)\<close>

text \<open>
  One entry of a signature listing: the signature, and whether the transaction failed
  (\<open>sigInfo.err\<close> is not null).
\<close>

record SigInfo =
  signature :: string
  err :: bool

text \<open>
  The collaborators of one poll cycle. \<open>getSignaturesForAddress until limit\<close> is the
  answer of the listing call for the table address (rejected, or the signatures newest
  first); \<open>getTransaction sig\<close> is rejected, or gives the log lines of the transaction
  (\<open>None\<close> when \<open>tx?.meta?.logMessages\<close> is missing); \<open>decode\<close> is the event coder of
  the program interface, which throws, returns null or returns a decoded event.
\<close>

record PollEnv =
  getSignaturesForAddress :: "string option \<Rightarrow> nat \<Rightarrow> js_error + SigInfo list"
  getTransaction :: "string \<Rightarrow> js_error + string list option"
  decode :: "string \<Rightarrow> js_error + Decoded option"

text \<open>The closure variables of the polling effect.\<close>

record PollState =
  isActive :: bool
  lastSignature :: "string option"
  isInitialized :: bool


definition startsWith :: "string \<Rightarrow> string \<Rightarrow> bool" where
  "startsWith s pre = (take (length pre) s = pre)"

text \<open>
  The body of the loop over the log lines of one transaction: the payload that is
  handed to \<open>updateGameState\<close> and to the event handler for this line, if any. Lines
  without the marker, lines the coder rejects (by throwing or by null) and events that
  \<open>mapDecodedToPayload\<close> drops deliver nothing.
\<close>

definition logPayload :: "PollEnv \<Rightarrow> string \<Rightarrow> string \<Rightarrow> GameEventPayload option" where
  "logPayload env tid log =
     (if \<not> startsWith log ''Program data: '' then None
      else case decode env (drop (length ''Program data: '') log) of
          Inl e \<Rightarrow> None
        | Inr None \<Rightarrow> None
        | Inr (Some decoded) \<Rightarrow>
            (case mapDecodedToPayload decoded tid of
               Inl e \<Rightarrow> None
             | Inr None \<Rightarrow> None
             | Inr (Some payload) \<Rightarrow> Some payload))"

text \<open>
  The body of the loop over the signatures: a failed transaction (or a stopped poller)
  is skipped; a rejected fetch is caught, logged and contributes no event.
\<close>

definition processSignature ::
  "PollEnv \<Rightarrow> string \<Rightarrow> bool \<Rightarrow> SigInfo \<Rightarrow> GameEventPayload list" where
  "processSignature env tid active sigInfo =
     (if err sigInfo \<or> \<not> active then []
      else case getTransaction env (signature sigInfo) of
          Inl e \<Rightarrow> []
        | Inr None \<Rightarrow> []
        | Inr (Some logMessages) \<Rightarrow> List.map_filter (logPayload env tid) logMessages)"

text \<open>
  \<open>lastSignature ? { until: lastSignature, limit: 10 } : { limit: 1 }\<close>; the empty
  string is falsy.
\<close>

definition listingOptions :: "string option \<Rightarrow> string option \<times> nat" where
  "listingOptions cursor =
     (case cursor of
        None \<Rightarrow> (None, 1)
      | Some s \<Rightarrow> (if s \<noteq> [] then (Some s, 10) else (None, 1)))"

text \<open>
  One poll cycle: the new closure variables and the payloads delivered to the consumers
  (the reducer and the event handler), in delivery order.
\<close>

definition poll ::
  "PollEnv \<Rightarrow> string \<Rightarrow> PollState \<Rightarrow> PollState \<times> GameEventPayload list" where
  "poll env tid st =
     (if \<not> isActive st then (st, [])
      else case getSignaturesForAddress env (fst (listingOptions (lastSignature st)))
                  (snd (listingOptions (lastSignature st))) of
          Inl e \<Rightarrow> (st, [])
        | Inr [] \<Rightarrow> (st, [])
        | Inr (newest # older) \<Rightarrow>
            (if \<not> isInitialized st
             then (st\<lparr> lastSignature := Some (signature newest), isInitialized := True \<rparr>, [])
             else (st\<lparr> lastSignature := Some (signature newest) \<rparr>,
                   concat (map (processSignature env tid (isActive st))
                               (rev (newest # older))))))"

text \<open>
  The calls of \<open>onCardsShuffled\<close> that a cycle makes: one per delivered shuffle event
  whose recipient is the connected wallet, with the next identity.
\<close>

fun cardsShuffledCalls :: "string option \<Rightarrow> GameEventPayload list \<Rightarrow> string list" where
  "cardsShuffledCalls walletStr [] = []"
| "cardsShuffledCalls walletStr (SuffleCardsForPlayer t p nxt # es) =
     (if walletStr = Some p \<and> p \<noteq> [] then nxt # cardsShuffledCalls walletStr es
      else cardsShuffledCalls walletStr es)"
| "cardsShuffledCalls walletStr (e # es) = cardsShuffledCalls walletStr es"



section \<open>Address derivation and handle extraction (useTable)\<close>

text \<open>
  A program-derived address is a deterministic function of its seeds and of the program
  namespace; it is identified here with its seeds: the table address (seeds
  \<open>"table"\<close>, table id), the player address (seeds \<open>"player"\<close>, table id, owner) and
  the allowance address (seeds: the 16 bytes of the handle, the grantee).
\<close>

datatype Address =
    TableAddress string
  | PlayerAddress string string
  | AllowanceAddress "nat list" string

definition getTableAddress :: "string \<Rightarrow> Address" where
  "getTableAddress tid = TableAddress tid"

text \<open>
  The loop of \<open>deriveAllowancePda\<close> that fills \<open>handleBuffer\<close>: the low byte first,
  then the handle shifted right by eight bits, sixteen times.
\<close>

fun leBytes :: "nat \<Rightarrow> nat \<Rightarrow> nat list" where
  "leBytes 0 h = []"
| "leBytes (Suc k) h = (h mod 256) # leBytes k (h div 256)"

definition deriveAllowancePda :: "nat \<Rightarrow> string \<Rightarrow> Address" where
  "deriveAllowancePda handle allowedAddress = AllowanceAddress (leBytes 16 handle) allowedAddress"

fun extractHandle :: "Euint128 \<Rightarrow> nat" where
  "extractHandle (HasBn n) = n"
| "extractHandle (Tuple0 n) = n"
| "extractHandle (Arr (n # ns)) = n"
| "extractHandle (Arr []) = 0"
| "extractHandle Missing = 0"

section \<open>The table hook: state, collaborators and effects (useTable)\<close>

record PlayerInfo =
  address :: string
  characterId :: "string option"
  encryptedCards :: "EncryptedCard list"

record TableData =
  td_tableId :: string
  td_players :: "string list"
  playerInfos :: "PlayerInfo list"
  isOpen :: bool
  tableCard :: int
  trunToPlay :: int
  cardsOnTable :: nat

text \<open>\<open>type GameState = "lobby" | "playing" | "ended"\<close> of the hook.\<close>

datatype GamePhase = Lobby | Playing | Ended

text \<open>
  The decoded on-chain accounts. \<open>oc_cardsOnTable\<close> is the length of the array, \<open>None\<close>
  when the field is not an array; \<open>oc_suffleTrun\<close> is \<open>None\<close> when the field is not a
  number; \<open>oc_characterId\<close> and \<open>oc_cards\<close> are \<open>None\<close> when the field is absent.
\<close>

record OnChainTable =
  oc_tableId :: string
  oc_players :: "string list"
  oc_isOpen :: bool
  oc_tableCard :: int
  oc_trunToPlay :: int
  oc_cardsOnTable :: "nat option"
  oc_suffleTrun :: "int option"
  oc_isOver :: bool

record OnChainPlayer =
  oc_characterId :: "string option"
  oc_cards :: "EncryptedCard list option"

datatype Instruction =
    JoinTable string string string Address Address
  | GrantCardAccess string string Address "Address list"

record Transaction =
  computeUnitLimit :: nat
  computeUnitPrice :: nat
  instruction :: Instruction

text \<open>
  The calls that leave the hook, logged in the state in the order in which they are
  made: account reads, transaction handling, the settle delay and decryption requests.
\<close>

datatype Effect =
    GetAccountInfo Address
  | FetchTableAccount Address
  | FetchPlayerAccount Address
  | GetLatestBlockhash
  | SimulateTransaction Transaction
  | SignTransaction Transaction
  | SendRawTransaction Transaction
  | ConfirmTransaction string
  | Wait nat
  | Decrypt string string

fun isTransactionEffect :: "Effect \<Rightarrow> bool" where
  "isTransactionEffect GetLatestBlockhash = True"
| "isTransactionEffect (SimulateTransaction tx) = True"
| "isTransactionEffect (SignTransaction tx) = True"
| "isTransactionEffect (SendRawTransaction tx) = True"
| "isTransactionEffect (ConfirmTransaction s) = True"
| "isTransactionEffect _ = False"

text \<open>
  The answers of the collaborators. \<open>rpcGetAccountInfo\<close> tells whether the account
  exists; \<open>rpcSimulate\<close> gives the rendered simulation error, if any; \<open>rpcConfirm\<close> is
  the confirmation raced against its timeout; \<open>incoDecrypt\<close> gives the two plaintexts
  after \<open>parseInt\<close>.
\<close>

record ChainEnv =
  rpcGetAccountInfo :: "Address \<Rightarrow> js_error + bool"
  rpcFetchTable :: "Address \<Rightarrow> js_error + OnChainTable"
  rpcFetchPlayer :: "Address \<Rightarrow> js_error + OnChainPlayer"
  rpcGetLatestBlockhash :: "js_error + string"
  rpcSimulate :: "Transaction \<Rightarrow> js_error + string option"
  walletSign :: "Transaction \<Rightarrow> js_error + unit"
  rpcSendRaw :: "Transaction \<Rightarrow> js_error + string"
  rpcConfirm :: "string \<Rightarrow> js_error + unit"
  incoDecrypt :: "string \<Rightarrow> string \<Rightarrow> js_error + (int \<times> int)"

text \<open>What the wallet adapter provides: the public key and which capabilities exist.\<close>

record Wallet =
  publicKey :: "string option"
  anchorWallet :: bool
  sendTransaction :: bool
  signTransaction :: bool
  signMessage :: bool

record HookState =
  tableData :: "TableData option"
  isLoading :: bool
  isJoining :: bool
  error :: "string option"
  gameState :: GamePhase
  currentTurnPlayer :: "string option"
  shuffleTurn :: int
  isOver :: bool
  myCards :: "DecryptedCard list"
  isDecryptingCards :: bool
  decryptFailed :: bool
  cardHandleMap :: "string \<rightharpoonup> DecryptedCard"
  localStorage :: LocalStorage
  effects :: "Effect list"

text \<open>The \<open>useState\<close> and \<open>useRef\<close> defaults of the hook, over a given local storage.\<close>

definition initialHookState :: "LocalStorage \<Rightarrow> HookState" where
  "initialHookState ls =
     \<lparr> tableData = None, isLoading = True, isJoining = False, error = None,
       gameState = Lobby, currentTurnPlayer = None, shuffleTurn = - 1, isOver = False,
       myCards = [], isDecryptingCards = False, decryptFailed = False,
       cardHandleMap = Map.empty, localStorage = ls, effects = [] \<rparr>"

text \<open>
  Steps that may throw and that change the hook state: \<open>perform\<close> makes a call to a
  collaborator (it is logged, and its answer is returned or thrown), \<open>bindM\<close> runs the
  next step unless the previous one threw.
\<close>

type_synonym 'a step = "HookState \<Rightarrow> (js_error + 'a) \<times> HookState"

definition perform :: "Effect \<Rightarrow> js_error + 'a \<Rightarrow> 'a step" where
  "perform eff answer = (\<lambda>st. (answer, st\<lparr> effects := effects st @ [eff] \<rparr>))"

definition bindM :: "'a step \<Rightarrow> ('a \<Rightarrow> 'b step) \<Rightarrow> 'b step" where
  "bindM m f = (\<lambda>st. case m st of (Inl e, st') \<Rightarrow> (Inl e, st') | (Inr x, st') \<Rightarrow> f x st')"

definition returnM :: "'a \<Rightarrow> 'a step" where
  "returnM x = (\<lambda>st. (Inr x, st))"

definition throwM :: "js_error \<Rightarrow> 'a step" where
  "throwM e = (\<lambda>st. (Inl e, st))"

text \<open>\<open>err.message || fallback\<close>.\<close>

definition messageOr :: "js_error \<Rightarrow> string \<Rightarrow> string" where
  "messageOr e fallback = (case e of Thrown m \<Rightarrow> (if m = [] then fallback else m))"

section \<open>Authoritative refetch (useTable, fetchTable)\<close>

text \<open>
  The callback mapped over the player addresses: a failed fetch of the player account
  is caught and gives the default record.
\<close>

definition fetchPlayerInfo :: "ChainEnv \<Rightarrow> string \<Rightarrow> string \<Rightarrow> PlayerInfo" where
  "fetchPlayerInfo env tid addr =
     (case rpcFetchPlayer env (PlayerAddress tid addr) of
        Inl e \<Rightarrow> \<lparr> address = addr, characterId = None, encryptedCards = [] \<rparr>
      | Inr playerAccount \<Rightarrow>
          \<lparr> address = addr,
            characterId =
              (case oc_characterId playerAccount of
                 None \<Rightarrow> None
               | Some c \<Rightarrow> (if c = [] then None else Some c)),
            encryptedCards =
              (case oc_cards playerAccount of None \<Rightarrow> [] | Some cs \<Rightarrow> cs) \<rparr>)"

text \<open>The state updates of \<open>fetchTable\<close> once the table account is decoded.\<close>

definition applyTable :: "ChainEnv \<Rightarrow> string \<Rightarrow> OnChainTable \<Rightarrow> HookState \<Rightarrow> HookState" where
  "applyTable env tid table st =
     (let playerAddresses = oc_players table;
          newTableData =
            \<lparr> td_tableId = oc_tableId table, td_players = playerAddresses,
              playerInfos = map (fetchPlayerInfo env tid) playerAddresses,
              isOpen = oc_isOpen table, tableCard = oc_tableCard table,
              trunToPlay = oc_trunToPlay table,
              cardsOnTable = (case oc_cardsOnTable table of None \<Rightarrow> 0 | Some n \<Rightarrow> n) \<rparr>;
          st1 = st\<lparr> effects := effects st
                       @ map (\<lambda>a. FetchPlayerAccount (PlayerAddress tid a)) playerAddresses,
                    tableData := Some newTableData,
                    shuffleTurn := (case oc_suffleTrun table of None \<Rightarrow> - 1 | Some n \<Rightarrow> n),
                    isOver := oc_isOver table \<rparr>;
          st2 =
            (if oc_isOver table then st1\<lparr> gameState := Ended \<rparr>
             else if oc_isOpen table then st1\<lparr> gameState := Lobby \<rparr>
             else if playerAddresses \<noteq> [] then
               (if 0 \<le> oc_trunToPlay table \<and> oc_trunToPlay table < int (length playerAddresses)
                then st1\<lparr> gameState := Playing,
                          currentTurnPlayer :=
                            Some (playerAddresses ! nat (oc_trunToPlay table)) \<rparr>
                else st1\<lparr> gameState := Playing \<rparr>)
             else st1)
      in st2\<lparr> error := None \<rparr>)"

text \<open>The \<open>try\<close> block of \<open>fetchTable\<close>.\<close>

definition fetchTableBody :: "ChainEnv \<Rightarrow> Wallet \<Rightarrow> string \<Rightarrow> unit step" where
  "fetchTableBody env w tid =
     bindM (perform (GetAccountInfo (getTableAddress tid))
              (rpcGetAccountInfo env (getTableAddress tid)))
       (\<lambda>accountInfo.
          if \<not> accountInfo then
            (\<lambda>st. (Inr (), st\<lparr> error := Some ''Table not found'', tableData := None \<rparr>))
          else if \<not> anchorWallet w then returnM ()
          else
            bindM (perform (FetchTableAccount (getTableAddress tid))
                     (rpcFetchTable env (getTableAddress tid)))
              (\<lambda>table st. (Inr (), applyTable env tid table st)))"

definition fetchTable :: "ChainEnv \<Rightarrow> Wallet \<Rightarrow> string \<Rightarrow> bool \<Rightarrow> HookState \<Rightarrow> HookState" where
  "fetchTable env w tid isInitialFetch st =
     (let st0 = (if isInitialFetch then st\<lparr> isLoading := True \<rparr> else st);
          st1 = (case fetchTableBody env w tid st0 of
                   (Inl e, s) \<Rightarrow> s\<lparr> error := Some (messageOr e ''Failed to fetch table'') \<rparr>
                 | (Inr u, s) \<Rightarrow> s)
      in if isInitialFetch then st1\<lparr> isLoading := False \<rparr> else st1)"

section \<open>Joining a table (useTable, joinTable)\<close>

definition takenCharacters :: "HookState \<Rightarrow> string option list" where
  "takenCharacters st =
     (case tableData st of
        None \<Rightarrow> []
      | Some td \<Rightarrow> map characterId (filter (\<lambda>p. characterId p \<noteq> None) (playerInfos td)))"

text \<open>The \<open>try\<close> block of \<open>joinTable\<close>, for the connected public key \<open>pk\<close>.\<close>

definition joinTableBody ::
  "ChainEnv \<Rightarrow> Wallet \<Rightarrow> string \<Rightarrow> string \<Rightarrow> string \<Rightarrow> bool step" where
  "joinTableBody env w pk tid cid =
     (let tableAddress = getTableAddress tid;
          playerAddress = PlayerAddress tid pk;
          transaction =
            \<lparr> computeUnitLimit = 200000, computeUnitPrice = 1000,
              instruction = JoinTable tid cid pk tableAddress playerAddress \<rparr>
      in bindM (perform (GetAccountInfo playerAddress) (rpcGetAccountInfo env playerAddress))
           (\<lambda>existingAccount.
              if existingAccount then (\<lambda>st. (Inr True, fetchTable env w tid False st))
              else
                bindM (perform GetLatestBlockhash (rpcGetLatestBlockhash env)) (\<lambda>blockhash.
                bindM (perform (SimulateTransaction transaction) (rpcSimulate env transaction))
                  (\<lambda>simErr.
                case simErr of
                  Some msg \<Rightarrow> throwM (Thrown (''Simulation failed: '' @ msg))
                | None \<Rightarrow>
                    if \<not> signTransaction w
                    then throwM (Thrown ''signTransaction is not a function'')
                    else
                      bindM (perform (SignTransaction transaction) (walletSign env transaction))
                        (\<lambda>signed.
                      bindM (perform (SendRawTransaction transaction)
                               (rpcSendRaw env transaction)) (\<lambda>tx.
                      bindM (perform (ConfirmTransaction tx) (rpcConfirm env tx)) (\<lambda>confirmed.
                        (\<lambda>st. (Inr True, fetchTable env w tid False st)))))))))"

definition joinTable ::
  "ChainEnv \<Rightarrow> Wallet \<Rightarrow> string \<Rightarrow> string \<Rightarrow> HookState \<Rightarrow> bool \<times> HookState" where
  "joinTable env w tid cid st =
     (case publicKey w of
        None \<Rightarrow> (False, st\<lparr> error := Some ''Wallet not connected'' \<rparr>)
      | Some pk \<Rightarrow>
          if \<not> anchorWallet w \<or> \<not> sendTransaction w
          then (False, st\<lparr> error := Some ''Wallet not connected'' \<rparr>)
          else if cid = [] then (False, st\<lparr> error := Some ''Please select a character'' \<rparr>)
          else if Some cid \<in> set (takenCharacters st)
          then (False,
                st\<lparr> error := Some ''This character is already taken by another player'' \<rparr>)
          else
            (case joinTableBody env w pk tid cid (st\<lparr> isJoining := True, error := None \<rparr>) of
               (Inl e, s) \<Rightarrow>
                 (False, s\<lparr> error := Some (messageOr e ''Failed to join table''),
                            isJoining := False \<rparr>)
             | (Inr b, s) \<Rightarrow> (b, s\<lparr> isJoining := False \<rparr>)))"

section \<open>Card decryption pipeline (useTable, decryptMyCards)\<close>

text \<open>
  The hook exists in two versions in the source. The definitions follow the later one
  (with the card cache, the debounced refetch and the confirmation timeout). The
  earlier version of \<open>decryptMyCards\<close> has the same wallet check at its entry, reads no
  flag or ref before it sets \<open>isDecryptingCards\<close>, and returns the empty list from its
  \<open>try\<close> block on an empty hand in the same way.
\<close>

text \<open>
  Step 5 of the pipeline: one decryption request per card, in order. After each answer
  the card is pushed on \<open>decryptedCards\<close>, recorded in \<open>cardHandleMap\<close> under
  \<open>shape:value\<close> and appended to \<open>myCards\<close>; a rejected request throws and keeps
  what was revealed so far.
\<close>

fun decryptLoop ::
  "ChainEnv \<Rightarrow> (string \<times> string) list \<Rightarrow> DecryptedCard list \<Rightarrow> DecryptedCard list step"
  where
  "decryptLoop env [] decryptedCards st = (Inr decryptedCards, st)"
| "decryptLoop env ((sh, vh) # hs) decryptedCards st =
     (case incoDecrypt env sh vh of
        Inl e \<Rightarrow> (Inl e, st\<lparr> effects := effects st @ [Decrypt sh vh] \<rparr>)
      | Inr (shapeIdx, valueIdx) \<Rightarrow>
          (let decryptedCard = \<lparr> shape = shapeIdx, value = valueIdx \<rparr> in
           decryptLoop env hs (decryptedCards @ [decryptedCard])
             (st\<lparr> effects := effects st @ [Decrypt sh vh],
                  cardHandleMap := (cardHandleMap st)(sh @ '':'' @ vh \<mapsto> decryptedCard),
                  myCards := myCards st @ [decryptedCard] \<rparr>)))"

text \<open>The handle strings and the allowance accounts of a hand (step 2).\<close>

definition cardHandles :: "EncryptedCard list \<Rightarrow> (string \<times> string) list" where
  "cardHandles cs =
     map (\<lambda>card. (showNat (extractHandle (shapeHandle card)),
                   showNat (extractHandle (valueHandle card)))) cs"

definition allowanceAccounts :: "string \<Rightarrow> EncryptedCard list \<Rightarrow> Address list" where
  "allowanceAccounts pk cs =
     concat (map (\<lambda>card. [deriveAllowancePda (extractHandle (shapeHandle card)) pk,
                           deriveAllowancePda (extractHandle (valueHandle card)) pk]) cs)"

text \<open>
  Step 3: the compute-budget instructions and the access-grant instruction with the
  allowance accounts as remaining accounts.
\<close>

definition grantCardAccessTx :: "string \<Rightarrow> string \<Rightarrow> EncryptedCard list \<Rightarrow> Transaction" where
  "grantCardAccessTx tid pk cs =
     \<lparr> computeUnitLimit = 400000, computeUnitPrice = 1000,
       instruction = GrantCardAccess tid pk (PlayerAddress tid pk) (allowanceAccounts pk cs) \<rparr>"

text \<open>The \<open>try\<close> block of \<open>decryptMyCards\<close>, for the connected public key \<open>pk\<close>.\<close>

definition decryptBody :: "ChainEnv \<Rightarrow> string \<Rightarrow> string \<Rightarrow> DecryptedCard list step" where
  "decryptBody env pk tid =
     (let playerAddress = PlayerAddress tid pk in
      bindM (perform (FetchPlayerAccount playerAddress) (rpcFetchPlayer env playerAddress))
        (\<lambda>player.
           case oc_cards player of
             None \<Rightarrow> returnM []
           | Some [] \<Rightarrow> returnM []
           | Some (c # cs) \<Rightarrow>
               (let grantTx = grantCardAccessTx tid pk (c # cs) in
                bindM (perform GetLatestBlockhash (rpcGetLatestBlockhash env)) (\<lambda>blockhash.
                bindM (perform (SignTransaction grantTx) (walletSign env grantTx)) (\<lambda>signed.
                bindM (perform (SendRawTransaction grantTx) (rpcSendRaw env grantTx))
                  (\<lambda>grantSig.
                bindM (perform (ConfirmTransaction grantSig) (rpcConfirm env grantSig))
                  (\<lambda>confirmed.
                bindM (perform (Wait 3000) (Inr ())) (\<lambda>settled.
                bindM (decryptLoop env (cardHandles (c # cs)) []) (\<lambda>decryptedCards.
                  (\<lambda>st. (Inr decryptedCards,
                          st\<lparr> localStorage :=
                                saveCachedCards (localStorage st) tid pk (c # cs)
                                  decryptedCards \<rparr>)))))))))))"

definition decryptMyCards ::
  "ChainEnv \<Rightarrow> Wallet \<Rightarrow> string \<Rightarrow> HookState \<Rightarrow> DecryptedCard list \<times> HookState" where
  "decryptMyCards env w tid st =
     (case publicKey w of
        None \<Rightarrow> ([], st)
      | Some pk \<Rightarrow>
          if \<not> signMessage w \<or> \<not> signTransaction w \<or> \<not> anchorWallet w \<or> \<not> sendTransaction w
          then ([], st)
          else
            (case decryptBody env pk tid (st\<lparr> isDecryptingCards := True \<rparr>) of
               (Inl e, s) \<Rightarrow> ([], s\<lparr> decryptFailed := True, isDecryptingCards := False \<rparr>)
             | (Inr decryptedCards, s) \<Rightarrow>
                 (decryptedCards, s\<lparr> isDecryptingCards := False \<rparr>)))"

text \<open>The current player's encrypted cards, as the hook derives them on every render.\<close>

definition myEncryptedCards :: "Wallet \<Rightarrow> HookState \<Rightarrow> EncryptedCard list" where
  "myEncryptedCards w st =
     (case publicKey w of
        None \<Rightarrow> []
      | Some pk \<Rightarrow>
          (case tableData st of
             None \<Rightarrow> []
           | Some td \<Rightarrow>
               (case find (\<lambda>p. address p = pk) (playerInfos td) of
                  None \<Rightarrow> []
                | Some p \<Rightarrow> encryptedCards p)))"

text \<open>
  The effect ``Load cached decrypted cards or trigger decrypt'': the trigger of the
  pipeline inside the hook.
\<close>

definition autoDecryptEffect :: "ChainEnv \<Rightarrow> Wallet \<Rightarrow> string \<Rightarrow> HookState \<Rightarrow> HookState" where
  "autoDecryptEffect env w tid st =
     (case publicKey w of
        None \<Rightarrow> st
      | Some pk \<Rightarrow>
          if myEncryptedCards w st = [] \<or> myCards st \<noteq> [] then st
          else if isDecryptingCards st \<or> decryptFailed st then st
          else if gameState st \<noteq> Playing then st
          else
            (case loadCachedCards (localStorage st) tid pk (myEncryptedCards w st) of
               (Some cached, ls) \<Rightarrow> st\<lparr> localStorage := ls, myCards := cached \<rparr>
             | (None, ls) \<Rightarrow> snd (decryptMyCards env w tid (st\<lparr> localStorage := ls \<rparr>))))"

text \<open>
  The trigger in the table pages (``Auto-decrypt''): the condition under which the
  page's own effect calls \<open>decryptMyCards\<close>, read from the values that the hook
  returned for the render.
\<close>

definition pageAutoDecryptGuard :: "Wallet \<Rightarrow> HookState \<Rightarrow> bool" where
  "pageAutoDecryptGuard w st =
     (gameState st = Playing \<and> myEncryptedCards w st \<noteq> [] \<and> myCards st = [] \<and>
      \<not> isDecryptingCards st \<and> \<not> decryptFailed st)"

subsection \<open>An invocation in flight\<close>

text \<open>
  \<open>decryptMyCards\<close> cut at its first suspension point, the \<open>await\<close> of the player
  fetch. \<open>decryptMyCardsStart\<close> is what runs before it: the wallet check,
  \<open>setIsDecryptingCards(true)\<close> and the fetch request. \<open>decryptMyCardsResume\<close> is what
  runs once the fetch is answered, with \<open>decryptAfterFetch\<close> the rest of the \<open>try\<close>
  block. Between the two the invocation is in flight, and other callbacks may run.
\<close>

definition decryptMyCardsStart :: "Wallet \<Rightarrow> string \<Rightarrow> HookState \<Rightarrow> HookState" where
  "decryptMyCardsStart w tid st =
     (case publicKey w of
        None \<Rightarrow> st
      | Some pk \<Rightarrow>
          if \<not> signMessage w \<or> \<not> signTransaction w \<or> \<not> anchorWallet w \<or> \<not> sendTransaction w
          then st
          else st\<lparr> isDecryptingCards := True,
                   effects := effects st @ [FetchPlayerAccount (PlayerAddress tid pk)] \<rparr>)"

definition decryptAfterFetch ::
  "ChainEnv \<Rightarrow> string \<Rightarrow> string \<Rightarrow> OnChainPlayer \<Rightarrow> DecryptedCard list step" where
  "decryptAfterFetch env pk tid playerAccount =
     (case oc_cards playerAccount of
        None \<Rightarrow> returnM []
      | Some [] \<Rightarrow> returnM []
      | Some (c # cs) \<Rightarrow>
          (let grantTx = grantCardAccessTx tid pk (c # cs) in
           bindM (perform GetLatestBlockhash (rpcGetLatestBlockhash env)) (\<lambda>blockhash.
           bindM (perform (SignTransaction grantTx) (walletSign env grantTx)) (\<lambda>signed.
           bindM (perform (SendRawTransaction grantTx) (rpcSendRaw env grantTx)) (\<lambda>grantSig.
           bindM (perform (ConfirmTransaction grantSig) (rpcConfirm env grantSig))
             (\<lambda>confirmed.
           bindM (perform (Wait 3000) (Inr ())) (\<lambda>settled.
           bindM (decryptLoop env (cardHandles (c # cs)) []) (\<lambda>decryptedCards.
             (\<lambda>st. (Inr decryptedCards,
                     st\<lparr> localStorage :=
                           saveCachedCards (localStorage st) tid pk (c # cs)
                             decryptedCards \<rparr>))))))))))"

definition decryptMyCardsResume ::
  "ChainEnv \<Rightarrow> Wallet \<Rightarrow> string \<Rightarrow> HookState \<Rightarrow> DecryptedCard list \<times> HookState" where
  "decryptMyCardsResume env w tid st =
     (case publicKey w of
        None \<Rightarrow> ([], st)
      | Some pk \<Rightarrow>
          if \<not> signMessage w \<or> \<not> signTransaction w \<or> \<not> anchorWallet w \<or> \<not> sendTransaction w
          then ([], st)
          else
            (case (case rpcFetchPlayer env (PlayerAddress tid pk) of
                     Inl e \<Rightarrow> (Inl e, st)
                   | Inr playerAccount \<Rightarrow> decryptAfterFetch env pk tid playerAccount st) of
               (Inl e, s) \<Rightarrow> ([], s\<lparr> decryptFailed := True, isDecryptingCards := False \<rparr>)
             | (Inr decryptedCards, s) \<Rightarrow>
                 (decryptedCards, s\<lparr> isDecryptingCards := False \<rparr>)))"

section \<open>Concrete collaborators for the examples\<close>

text \<open>A wallet with every capability, and collaborators that answer every call.\<close>

definition fullWallet :: "string \<Rightarrow> Wallet" where
  "fullWallet pk =
     \<lparr> publicKey = Some pk, anchorWallet = True, sendTransaction = True,
       signTransaction = True, signMessage = True \<rparr>"

definition exampleEnv :: "OnChainTable \<Rightarrow> OnChainPlayer \<Rightarrow> ChainEnv" where
  "exampleEnv table playerAccount =
     \<lparr> rpcGetAccountInfo = (\<lambda>a. Inr True),
       rpcFetchTable = (\<lambda>a. Inr table),
       rpcFetchPlayer = (\<lambda>a. Inr playerAccount),
       rpcGetLatestBlockhash = Inr ''blockhash1'',
       rpcSimulate = (\<lambda>tx. Inr None),
       walletSign = (\<lambda>tx. Inr ()),
       rpcSendRaw = (\<lambda>tx. Inr ''sigGrant''),
       rpcConfirm = (\<lambda>s. Inr ()),
       incoDecrypt = (\<lambda>sh vh. Inr (1, 12)) \<rparr>"

definition exampleTable :: OnChainTable where
  "exampleTable =
     \<lparr> oc_tableId = ''7'', oc_players = [''alice''], oc_isOpen = True, oc_tableCard = 0,
       oc_trunToPlay = 0, oc_cardsOnTable = Some 0, oc_suffleTrun = None, oc_isOver = False \<rparr>"

definition exampleHand :: "EncryptedCard list" where
  "exampleHand = [\<lparr> shapeHandle = HasBn 5, valueHandle = HasBn 9 \<rparr>]"

definition examplePlayer :: OnChainPlayer where
  "examplePlayer = \<lparr> oc_characterId = Some ''bull'', oc_cards = Some exampleHand \<rparr>"

definition emptyHandedPlayer :: OnChainPlayer where
  "emptyHandedPlayer = \<lparr> oc_characterId = Some ''bull'', oc_cards = Some [] \<rparr>"

definition exampleTableData :: TableData where
  "exampleTableData =
     \<lparr> td_tableId = ''7'', td_players = [''alice''],
       playerInfos = [\<lparr> address = ''alice'', characterId = Some ''bull'', encryptedCards = [] \<rparr>],
       isOpen = True, tableCard = 0, trunToPlay = 0, cardsOnTable = 0 \<rparr>"

text \<open>
  The hook state of a game in progress in which the table data lists the hand of
  \<open>alice\<close> and nothing is decrypted yet.
\<close>

definition examplePlayingState :: HookState where
  "examplePlayingState =
     (initialHookState Map.empty)
       \<lparr> tableData := Some (exampleTableData
            \<lparr> playerInfos :=
                [\<lparr> address = ''alice'', characterId = Some ''bull'',
                   encryptedCards = exampleHand \<rparr>] \<rparr>),
         gameState := Playing \<rparr>"

section \<open>Properties of the reducer\<close>

lemma updateGameState_active_subset:
  "set (activePlayers s) \<subseteq> set (players s) \<Longrightarrow>
   set (activePlayers (updateGameState now e s)) \<subseteq> set (players (updateGameState now e s))"
  by (cases e) (auto simp: Let_def)

lemma applyEvents_active_subset:
  "set (activePlayers s) \<subseteq> set (players s) \<Longrightarrow>
   set (activePlayers (applyEvents s es)) \<subseteq> set (players (applyEvents s es))"
proof (induction es arbitrary: s)
  case Nil
  then show ?case by simp
next
  case (Cons x xs)
  obtain now e where x: "x = (now, e)" by (cases x)
  from Cons.prems have "set (activePlayers (updateGameState now e s))
      \<subseteq> set (players (updateGameState now e s))"
    by (rule updateGameState_active_subset)
  then show ?case using Cons.IH x by simp
qed

lemma updateGameState_turn:
  "currentTurn (updateGameState now e s) = None \<or>
   currentTurn (updateGameState now e s) = currentTurn s \<or>
   currentTurn (updateGameState now e s) = turnCarried e"
  by (cases e) (auto simp: Let_def)

lemma applyEvents_turn:
  "currentTurn (applyEvents s es) = None \<or>
   currentTurn (applyEvents s es) = currentTurn s \<or>
   currentTurn (applyEvents s es) \<in> turnCarried ` snd ` set es"
proof (induction es arbitrary: s)
  case Nil
  then show ?case by simp
next
  case (Cons x xs)
  obtain now e where x: "x = (now, e)" by (cases x)
  let ?s' = "updateGameState now e s"
  from Cons.IH [of ?s'] updateGameState_turn [of now e s]
  show ?case unfolding x by (auto simp: image_iff)
qed

text \<open>
  C2 (as stated, refuted): the reducer stores the identity carried by a turn event in
  \<open>currentTurn\<close> without looking it up in \<open>players\<close>. One turn-change event applied
  to the initial state leaves a current turn that is not a player.
\<close>

theorem C2_currentTurn_counterexample:
  "currentTurn (applyEvents (createInitialGameState ''7'') [(0, TableTrun ''7'' ''alice'')])
     = Some ''alice'' \<and>
   ''alice'' \<notin> set (players
     (applyEvents (createInitialGameState ''7'') [(0, TableTrun ''7'' ''alice'')]))"
  by (simp add: createInitialGameState_def)

text \<open>
  C2 (amended): for every sequence of decoded events applied from the initial state,
  the active players are a subset of the players, and the current turn, whenever it is
  set, is the identity carried by a shuffle event (its next identity) or by a
  turn-change event of the sequence.
\<close>

theorem C2_reducer_invariant:
  "set (activePlayers (applyEvents (createInitialGameState tid) es))
     \<subseteq> set (players (applyEvents (createInitialGameState tid) es)) \<and>
   (currentTurn (applyEvents (createInitialGameState tid) es) = None \<or>
    currentTurn (applyEvents (createInitialGameState tid) es)
      \<in> turnCarried ` snd ` set es)"
proof
  have "set (activePlayers (createInitialGameState tid))
      \<subseteq> set (players (createInitialGameState tid))"
    by (simp add: createInitialGameState_def)
  then show "set (activePlayers (applyEvents (createInitialGameState tid) es))
     \<subseteq> set (players (applyEvents (createInitialGameState tid) es))"
    by (rule applyEvents_active_subset)
next
  have "currentTurn (createInitialGameState tid) = None"
    by (simp add: createInitialGameState_def)
  with applyEvents_turn [of "createInitialGameState tid" es]
  show "currentTurn (applyEvents (createInitialGameState tid) es) = None \<or>
    currentTurn (applyEvents (createInitialGameState tid) es)
      \<in> turnCarried ` snd ` set es"
    by auto
qed

theorem C2_reducer_invariant_witness:
  "set (activePlayers (applyEvents (createInitialGameState ''7'')
     [(1, PlayerJoined ''7'' ''alice''), (2, PlayerJoined ''7'' ''bob''),
      (3, SuffleCardsForPlayer ''7'' ''alice'' ''bob''), (4, PlayerEleminated ''7'' ''bob'')]))
     \<subseteq> set (players (applyEvents (createInitialGameState ''7'')
     [(1, PlayerJoined ''7'' ''alice''), (2, PlayerJoined ''7'' ''bob''),
      (3, SuffleCardsForPlayer ''7'' ''alice'' ''bob''), (4, PlayerEleminated ''7'' ''bob'')])) \<and>
   currentTurn (applyEvents (createInitialGameState ''7'')
     [(1, PlayerJoined ''7'' ''alice''), (2, PlayerJoined ''7'' ''bob''),
      (3, SuffleCardsForPlayer ''7'' ''alice'' ''bob''), (4, PlayerEleminated ''7'' ''bob'')])
     = Some ''bob''"
  using C2_reducer_invariant [of "''7''"
     "[(1, PlayerJoined ''7'' ''alice''), (2, PlayerJoined ''7'' ''bob''),
      (3, SuffleCardsForPlayer ''7'' ''alice'' ''bob''), (4, PlayerEleminated ''7'' ''bob'')]"]
  by (simp add: createInitialGameState_def)

text \<open>
  C5: for every game state and every player-joined or player-eliminated event, applying
  the reducer a second time with the same event gives the state that one application
  gives, whatever the clock readings.
\<close>

theorem C5_join_eliminate_idempotent:
  "isJoinOrEliminate e \<Longrightarrow>
   updateGameState now2 e (updateGameState now1 e s) = updateGameState now1 e s"
  by (cases e) (auto simp: Let_def)

theorem C5_join_eliminate_idempotent_witness:
  "isJoinOrEliminate (PlayerJoined ''7'' ''alice'') \<and>
   updateGameState 2 (PlayerJoined ''7'' ''alice'')
     (updateGameState 1 (PlayerJoined ''7'' ''alice'') (createInitialGameState ''7''))
   = updateGameState 1 (PlayerJoined ''7'' ''alice'') (createInitialGameState ''7'') \<and>
   players (updateGameState 2 (PlayerJoined ''7'' ''alice'')
     (updateGameState 1 (PlayerJoined ''7'' ''alice'') (createInitialGameState ''7'')))
   = [''alice'']"
  using C5_join_eliminate_idempotent
    [of "PlayerJoined ''7'' ''alice''" 2 1 "createInitialGameState ''7''"]
  by (simp add: createInitialGameState_def)

text \<open>
  C9: in every game state, a shuffle event carrying the next identity \<open>x\<close> followed
  at once by a turn-change event carrying \<open>y\<close> leaves the current turn equal to \<open>y\<close>.
\<close>

theorem C9_turn_last_write_wins:
  "currentTurn (updateGameState now2 (TableTrun t2 y)
     (updateGameState now1 (SuffleCardsForPlayer t1 p x) s)) = Some y"
  by simp

theorem C9_turn_last_write_wins_witness:
  "currentTurn (updateGameState 2 (TableTrun ''7'' ''bob'')
     (updateGameState 1 (SuffleCardsForPlayer ''7'' ''alice'' ''carol'')
        (createInitialGameState ''7''))) = Some ''bob''"
  using C9_turn_last_write_wins
    [of 2 "''7''" "''bob''" 1 "''7''" "''alice''" "''carol''" "createInitialGameState ''7''"]
  by simp

section \<open>Properties of the connection health monitor\<close>

lemma useConnectionStatus_snoc:
  "xs \<noteq> [] \<Longrightarrow> useConnectionStatus (xs @ [y]) = healthCheck y (useConnectionStatus xs)"
  by (cases xs) simp_all

lemma trailingFailures_snoc_ok [simp]: "trailingFailures (xs @ [ProbeOk]) = 0"
  by (simp add: trailingFailures_def)

lemma trailingFailures_snoc_failed [simp]:
  "trailingFailures (xs @ [ProbeFailed]) = Suc (trailingFailures xs)"
  by (simp add: trailingFailures_def)

lemma trailingFailures_Nil [simp]: "trailingFailures [] = 0"
  by (simp add: trailingFailures_def)

lemma health_characterisation:
  "failCount (useConnectionStatus xs) = trailingFailures xs \<and>
   status (useConnectionStatus xs) =
     (if xs = [] \<or> last xs = ProbeOk then Connected
      else if 2 \<le> trailingFailures xs \<or> length xs = 1 then Disconnected
      else Reconnecting)"
proof (induction xs rule: rev_induct)
  case Nil
  show ?case by (simp add: initialHealth_def)
next
  case (snoc y ys)
  show ?case
  proof (cases "ys = []")
    case True
    then show ?thesis by (cases y) (simp_all add: initialHealth_def trailingFailures_def)
  next
    case False
    have step: "useConnectionStatus (ys @ [y]) = healthCheck y (useConnectionStatus ys)"
      using False by (rule useConnectionStatus_snoc)
    show ?thesis
    proof (cases y)
      case ProbeOk
      then show ?thesis using step by simp
    next
      case ProbeFailed
      have len: "length (ys @ [y]) \<noteq> 1" using False by (cases ys) simp_all
      from snoc.IH have fc: "failCount (useConnectionStatus ys) = trailingFailures ys"
        by simp
      show ?thesis using step ProbeFailed fc len False
        by (auto simp: Let_def)
    qed
  qed
qed

text \<open>
  C7 (as stated, refuted): a single failure does not always give reconnecting. When the
  one failure is that of the probe issued at mount, the status is disconnected.
\<close>

theorem C7_first_failure_counterexample:
  "status (useConnectionStatus [ProbeFailed]) = Disconnected \<and>
   failCount (useConnectionStatus [ProbeFailed]) = 1 \<and>
   trailingFailures [ProbeFailed] = 1"
  by (simp add: initialHealth_def trailingFailures_def)

text \<open>
  C7 (amended): for every sequence of probe outcomes, the failure counter is the number
  of failures since the last success, and the status is connected at the start and after
  a success, disconnected after two or more consecutive failures and also after a
  failure of the mount-time probe (the very first outcome), and reconnecting after
  exactly one failure of a periodic probe.
\<close>

theorem C7_health_classifier:
  "failCount (useConnectionStatus xs) = trailingFailures xs \<and>
   status (useConnectionStatus xs) =
     (if xs = [] \<or> last xs = ProbeOk then Connected
      else if 2 \<le> trailingFailures xs \<or> length xs = 1 then Disconnected
      else Reconnecting)"
  by (rule health_characterisation)

theorem C7_health_classifier_witness:
  "status (useConnectionStatus [ProbeOk, ProbeFailed]) = Reconnecting \<and>
   failCount (useConnectionStatus [ProbeOk, ProbeFailed]) = 1 \<and>
   status (useConnectionStatus [ProbeOk, ProbeFailed, ProbeFailed]) = Disconnected \<and>
   status (useConnectionStatus [ProbeFailed, ProbeFailed, ProbeOk]) = Connected"
  using C7_health_classifier [of "[ProbeOk, ProbeFailed]"]
    C7_health_classifier [of "[ProbeOk, ProbeFailed, ProbeFailed]"]
    C7_health_classifier [of "[ProbeFailed, ProbeFailed, ProbeOk]"]
  by (simp add: trailingFailures_def)

section \<open>Properties of the card cache store\<close>

text \<open>
  The fingerprint is computed from what \<open>toString()\<close> prints, so two hands of
  tuple-shaped handles have the same fingerprint whatever the handles are.
\<close>

lemma fingerprint_of_tuple_handles:
  "getEncryptedFingerprint [\<lparr> shapeHandle = Tuple0 a, valueHandle = Tuple0 b \<rparr>]
     = getEncryptedFingerprint [\<lparr> shapeHandle = Tuple0 c, valueHandle = Tuple0 d \<rparr>]"
  by (simp add: getEncryptedFingerprint_def)

text \<open>
  A raw item that parses to a value that is not a cache record, such as \<open>{}\<close>, fails
  the fingerprint comparison and is removed.
\<close>

lemma loadCachedCards_foreign_item:
  "ls (getCardCacheKey tid wallet) = Some (Parsed None noCards) \<Longrightarrow>
   loadCachedCards ls tid wallet H = (None, ls(getCardCacheKey tid wallet := None))"
  by (simp add: loadCachedCards_def)

text \<open>
  C6 (as stated, refuted): an entry whose fingerprint matches the current handles but
  whose card list is empty is not returned: \<open>load\<close> answers none and evicts it.
\<close>

theorem C6_empty_entry_counterexample:
  "loadCachedCards
     [getCardCacheKey ''7'' ''alice'' \<mapsto>
        Entry \<lparr> fingerprint = getEncryptedFingerprint [], cards = [] \<rparr>]
     ''7'' ''alice'' []
   = (None, Map.empty)"
  by (simp add: loadCachedCards_def)

text \<open>
  C6 (amended): for every stored entry and every current handle list: if the stored
  fingerprint equals the freshly computed one and the cached card list is not empty,
  \<open>load\<close> returns the cached list and leaves the store as it is; if the fingerprints
  differ, or they agree and the cached list is empty, \<open>load\<close> returns none and deletes
  the entry; if there is no entry, \<open>load\<close> returns none and the store is unchanged.
\<close>

theorem C6_load_cached_cards:
  "(ls (getCardCacheKey tid wallet) = Some (Entry c) \<longrightarrow>
      loadCachedCards ls tid wallet H =
        (if fingerprint c = getEncryptedFingerprint H \<and> cards c \<noteq> []
         then (Some (cards c), ls)
         else (None, ls(getCardCacheKey tid wallet := None)))) \<and>
   (ls (getCardCacheKey tid wallet) = None \<longrightarrow>
      loadCachedCards ls tid wallet H = (None, ls))"
  by (simp add: loadCachedCards_def)

theorem C6_load_cached_cards_witness:
  "[getCardCacheKey ''7'' ''alice'' \<mapsto>
      Entry \<lparr> fingerprint = ''5:9'', cards = [\<lparr> shape = 1, value = 12 \<rparr>] \<rparr>]
     (getCardCacheKey ''7'' ''alice'')
     = Some (Entry \<lparr> fingerprint = ''5:9'', cards = [\<lparr> shape = 1, value = 12 \<rparr>] \<rparr>) \<and>
   getEncryptedFingerprint [\<lparr> shapeHandle = HasBn 5, valueHandle = HasBn 9 \<rparr>] = ''5:9'' \<and>
   loadCachedCards
     [getCardCacheKey ''7'' ''alice'' \<mapsto>
        Entry \<lparr> fingerprint = ''5:9'', cards = [\<lparr> shape = 1, value = 12 \<rparr>] \<rparr>]
     ''7'' ''alice'' [\<lparr> shapeHandle = HasBn 5, valueHandle = HasBn 9 \<rparr>]
   = (Some [\<lparr> shape = 1, value = 12 \<rparr>],
      [getCardCacheKey ''7'' ''alice'' \<mapsto>
        Entry \<lparr> fingerprint = ''5:9'', cards = [\<lparr> shape = 1, value = 12 \<rparr>] \<rparr>]) \<and>
   fst (loadCachedCards
     [getCardCacheKey ''7'' ''alice'' \<mapsto>
        Entry \<lparr> fingerprint = ''5:9'', cards = [\<lparr> shape = 1, value = 12 \<rparr>] \<rparr>]
     ''7'' ''alice'' [\<lparr> shapeHandle = HasBn 6, valueHandle = HasBn 9 \<rparr>]) = None \<and>
   snd (loadCachedCards
     [getCardCacheKey ''7'' ''alice'' \<mapsto>
        Entry \<lparr> fingerprint = ''5:9'', cards = [\<lparr> shape = 1, value = 12 \<rparr>] \<rparr>]
     ''7'' ''alice'' [\<lparr> shapeHandle = HasBn 6, valueHandle = HasBn 9 \<rparr>])
     (getCardCacheKey ''7'' ''alice'') = None \<and>
   loadCachedCards Map.empty ''7'' ''alice'' [] = (None, Map.empty)"
proof -
  let ?c = "\<lparr> fingerprint = ''5:9'', cards = [\<lparr> shape = 1, value = 12 \<rparr>] \<rparr>"
  let ?ls = "[getCardCacheKey ''7'' ''alice'' \<mapsto> Entry ?c]"
  have fp5: "getEncryptedFingerprint [\<lparr> shapeHandle = HasBn 5, valueHandle = HasBn 9 \<rparr>]
      = ''5:9''"
    by (simp add: getEncryptedFingerprint_def orEmpty_def)
  have fp6: "getEncryptedFingerprint [\<lparr> shapeHandle = HasBn 6, valueHandle = HasBn 9 \<rparr>]
      = ''6:9''"
    by (simp add: getEncryptedFingerprint_def orEmpty_def)
  have stored: "?ls (getCardCacheKey ''7'' ''alice'') = Some (Entry ?c)" by simp
  from C6_load_cached_cards
    [of ?ls "''7''" "''alice''" ?c "[\<lparr> shapeHandle = HasBn 5, valueHandle = HasBn 9 \<rparr>]"]
  have hit: "loadCachedCards ?ls ''7'' ''alice''
      [\<lparr> shapeHandle = HasBn 5, valueHandle = HasBn 9 \<rparr>] = (Some (cards ?c), ?ls)"
    using stored fp5 by simp
  from C6_load_cached_cards
    [of ?ls "''7''" "''alice''" ?c "[\<lparr> shapeHandle = HasBn 6, valueHandle = HasBn 9 \<rparr>]"]
  have miss: "loadCachedCards ?ls ''7'' ''alice''
      [\<lparr> shapeHandle = HasBn 6, valueHandle = HasBn 9 \<rparr>]
      = (None, ?ls(getCardCacheKey ''7'' ''alice'' := None))"
    using stored fp6 by simp
  from C6_load_cached_cards [of Map.empty "''7''" "''alice''" ?c "[]"]
  have absent: "loadCachedCards Map.empty ''7'' ''alice'' [] = (None, Map.empty)"
    by simp
  show ?thesis using stored fp5 hit miss absent by simp
qed

section \<open>Properties of the transaction poller\<close>


lemma processSignature_fetch_rejected:
  "getTransaction env (signature s) = Inl e \<Longrightarrow> processSignature env tid active s = []"
  by (simp add: processSignature_def)



text \<open>
  C4: in every poll cycle of a running, initialised poller whose listing call returns at
  least one signature, the cycle ends with the cursor at the newest signature of the
  listing, whatever the transaction fetches and the event coder answer; the events
  delivered are those of every listed signature, oldest first, and a signature whose
  fetch is rejected contributes none.
\<close>

theorem C4_cursor_advances:
  "isActive st \<Longrightarrow> isInitialized st \<Longrightarrow>
   getSignaturesForAddress env (fst (listingOptions (lastSignature st)))
     (snd (listingOptions (lastSignature st))) = Inr (newest # older) \<Longrightarrow>
   lastSignature (fst (poll env tid st)) = Some (signature newest) \<and>
   snd (poll env tid st)
     = concat (map (processSignature env tid True) (rev (newest # older))) \<and>
   (\<forall>s e. getTransaction env (signature s) = Inl e \<longrightarrow>
      processSignature env tid True s = [])"
  by (simp add: poll_def processSignature_fetch_rejected)

theorem C4_cursor_advances_witness:
  "poll
     \<lparr> getSignaturesForAddress = (\<lambda>until limit.
         Inr [\<lparr> signature = ''sig3'', err = False \<rparr>, \<lparr> signature = ''sig2'', err = False \<rparr>]),
       getTransaction = (\<lambda>s. if s = ''sig2'' then Inr (Some [''Program data: AAAA''])
                               else Inl (Thrown ''fetch failed'')),
       decode = (\<lambda>b. if b = ''AAAA''
         then Inr (Some \<lparr> name = ''playerJoined'',
           data = \<lparr> data_tableId = Some ''7'', data_player = Some ''bob'', data_next = None,
                    data_caller = None \<rparr> \<rparr>)
         else Inl (Thrown ''not an event'')) \<rparr>
     ''7'' \<lparr> isActive = True, lastSignature = Some ''sig1'', isInitialized = True \<rparr>
   = (\<lparr> isActive = True, lastSignature = Some ''sig3'', isInitialized = True \<rparr>,
      [PlayerJoined ''7'' ''bob''])"
proof -
  let ?sigs = "[\<lparr> signature = ''sig3'', err = False \<rparr>, \<lparr> signature = ''sig2'', err = False \<rparr>]"
  let ?env = "\<lparr> getSignaturesForAddress = (\<lambda>until limit. Inr ?sigs),
       getTransaction = (\<lambda>s. if s = ''sig2'' then Inr (Some [''Program data: AAAA''])
                               else Inl (Thrown ''fetch failed'')),
       decode = (\<lambda>b. if b = ''AAAA''
         then Inr (Some \<lparr> name = ''playerJoined'',
           data = \<lparr> data_tableId = Some ''7'', data_player = Some ''bob'', data_next = None,
                    data_caller = None \<rparr> \<rparr>)
         else Inl (Thrown ''not an event'')) \<rparr>"
  let ?st = "\<lparr> isActive = True, lastSignature = Some ''sig1'', isInitialized = True \<rparr>"
  have a: "isActive ?st" and i: "isInitialized ?st" by simp_all
  have l: "getSignaturesForAddress ?env (fst (listingOptions (lastSignature ?st)))
     (snd (listingOptions (lastSignature ?st)))
     = Inr (\<lparr> signature = ''sig3'', err = False \<rparr> # [\<lparr> signature = ''sig2'', err = False \<rparr>])"
    by simp
  have ev2: "processSignature ?env ''7'' True \<lparr> signature = ''sig2'', err = False \<rparr>
      = [PlayerJoined ''7'' ''bob'']"
    by (simp add: processSignature_def List.map_filter_def logPayload_def startsWith_def
        mapDecodedToPayload_def bindE_def fieldToString_def)
  have ev3: "processSignature ?env ''7'' True \<lparr> signature = ''sig3'', err = False \<rparr> = []"
    by (simp add: processSignature_def)
  from C4_cursor_advances [OF a i l, of "''7''"]
  have "lastSignature (fst (poll ?env ''7'' ?st)) = Some ''sig3''"
    and "snd (poll ?env ''7'' ?st) = [PlayerJoined ''7'' ''bob'']"
    using ev2 ev3 by simp_all
  moreover have "isActive (fst (poll ?env ''7'' ?st)) \<and> isInitialized (fst (poll ?env ''7'' ?st))"
    by (simp add: poll_def)
  ultimately show ?thesis
    by (cases "poll ?env ''7'' ?st") auto
qed

section \<open>Properties of the table hook\<close>

lemma perform_bind:
  "bindM (perform eff answer) f st =
     (case answer of
        Inl e \<Rightarrow> (Inl e, st\<lparr> effects := effects st @ [eff] \<rparr>)
      | Inr x \<Rightarrow> f x (st\<lparr> effects := effects st @ [eff] \<rparr>))"
  by (simp add: bindM_def perform_def split: sum.splits)

lemma fetchTable_transaction_effects:
  "filter isTransactionEffect (effects (fetchTable env w tid b st))
     = filter isTransactionEffect (effects st)"
  by (auto simp: fetchTable_def fetchTableBody_def applyTable_def returnM_def Let_def
        perform_bind filter_map comp_def
      split: sum.splits prod.splits bool.splits)

lemma fetchTable_error:
  "anchorWallet w \<Longrightarrow>
   error (fetchTable env w tid False st) =
     (case rpcGetAccountInfo env (getTableAddress tid) of
        Inl e \<Rightarrow> Some (messageOr e ''Failed to fetch table'')
      | Inr found \<Rightarrow>
          if \<not> found then Some ''Table not found''
          else (case rpcFetchTable env (getTableAddress tid) of
                  Inl e \<Rightarrow> Some (messageOr e ''Failed to fetch table'')
                | Inr table \<Rightarrow> None))"
  by (auto simp: fetchTable_def fetchTableBody_def applyTable_def returnM_def Let_def
        perform_bind
      split: sum.splits prod.splits)

lemma decryptMyCards_not_connected:
  "publicKey w = None \<or> \<not> signMessage w \<or> \<not> signTransaction w \<or> \<not> anchorWallet w
     \<or> \<not> sendTransaction w \<Longrightarrow>
   decryptMyCards env w tid st = ([], st)"
  by (auto simp: decryptMyCards_def split: option.splits)

lemma decryptMyCards_ignores_flag:
  "publicKey w \<noteq> None \<Longrightarrow> signMessage w \<Longrightarrow> signTransaction w \<Longrightarrow> anchorWallet w \<Longrightarrow>
   sendTransaction w \<Longrightarrow>
   decryptMyCards env w tid (st\<lparr> isDecryptingCards := b \<rparr>) = decryptMyCards env w tid st"
  by (auto simp: decryptMyCards_def)

lemma autoDecryptEffect_in_flight:
  "isDecryptingCards st \<Longrightarrow> autoDecryptEffect env w tid st = st"
  by (simp add: autoDecryptEffect_def split: option.splits)

lemma decryptMyCards_start_resume:
  "decryptMyCards env w tid st = decryptMyCardsResume env w tid (decryptMyCardsStart w tid st)"
  by (auto simp: decryptMyCards_def decryptMyCardsResume_def decryptMyCardsStart_def
        decryptBody_def decryptAfterFetch_def perform_bind Let_def
      split: option.splits sum.splits list.splits)

lemma example_page_trigger:
  "pageAutoDecryptGuard (fullWallet ''alice'') examplePlayingState"
  by (simp add: pageAutoDecryptGuard_def myEncryptedCards_def fullWallet_def
      examplePlayingState_def initialHookState_def exampleTableData_def exampleHand_def)

lemma example_hook_trigger:
  "autoDecryptEffect env (fullWallet ''alice'') ''7'' examplePlayingState
   = snd (decryptMyCards env (fullWallet ''alice'') ''7'' examplePlayingState)"
  by (simp add: autoDecryptEffect_def myEncryptedCards_def fullWallet_def loadCachedCards_def
      examplePlayingState_def initialHookState_def exampleTableData_def exampleHand_def)

lemma example_first_in_flight:
  "decryptMyCardsStart (fullWallet ''alice'') ''7'' examplePlayingState
   = examplePlayingState\<lparr> isDecryptingCards := True,
        effects := [FetchPlayerAccount (PlayerAddress ''7'' ''alice'')] \<rparr>"
  by (simp add: decryptMyCardsStart_def fullWallet_def examplePlayingState_def
      initialHookState_def)

lemma example_second_result:
  "fst (decryptMyCards (exampleEnv exampleTable examplePlayer) (fullWallet ''alice'') ''7''
     (decryptMyCardsStart (fullWallet ''alice'') ''7'' examplePlayingState))
   = [\<lparr> shape = 1, value = 12 \<rparr>]"
  by (simp add: decryptMyCards_def decryptBody_def returnM_def fullWallet_def exampleEnv_def
      examplePlayingState_def initialHookState_def cardHandles_def Let_def bindM_def
      perform_def examplePlayer_def exampleHand_def decryptMyCardsStart_def)

lemma example_both_effects:
  "effects (snd (decryptMyCardsResume (exampleEnv exampleTable examplePlayer)
       (fullWallet ''alice'') ''7''
     (snd (decryptMyCardsResume (exampleEnv exampleTable examplePlayer)
       (fullWallet ''alice'') ''7''
       (decryptMyCardsStart (fullWallet ''alice'') ''7''
         (decryptMyCardsStart (fullWallet ''alice'') ''7'' examplePlayingState))))))
   = [FetchPlayerAccount (PlayerAddress ''7'' ''alice''),
      FetchPlayerAccount (PlayerAddress ''7'' ''alice''),
      GetLatestBlockhash,
      SignTransaction (grantCardAccessTx ''7'' ''alice'' exampleHand),
      SendRawTransaction (grantCardAccessTx ''7'' ''alice'' exampleHand),
      ConfirmTransaction ''sigGrant'', Wait 3000, Decrypt ''5'' ''9'',
      GetLatestBlockhash,
      SignTransaction (grantCardAccessTx ''7'' ''alice'' exampleHand),
      SendRawTransaction (grantCardAccessTx ''7'' ''alice'' exampleHand),
      ConfirmTransaction ''sigGrant'', Wait 3000, Decrypt ''5'' ''9'']"
  by (simp add: decryptMyCardsResume_def decryptAfterFetch_def returnM_def fullWallet_def
      exampleEnv_def examplePlayingState_def initialHookState_def cardHandles_def Let_def
      bindM_def perform_def examplePlayer_def exampleHand_def decryptMyCardsStart_def)

lemma example_both_cards:
  "myCards (snd (decryptMyCardsResume (exampleEnv exampleTable examplePlayer)
       (fullWallet ''alice'') ''7''
     (snd (decryptMyCardsResume (exampleEnv exampleTable examplePlayer)
       (fullWallet ''alice'') ''7''
       (decryptMyCardsStart (fullWallet ''alice'') ''7''
         (decryptMyCardsStart (fullWallet ''alice'') ''7'' examplePlayingState))))))
   = [\<lparr> shape = 1, value = 12 \<rparr>, \<lparr> shape = 1, value = 12 \<rparr>]"
  by (simp add: decryptMyCardsResume_def decryptAfterFetch_def returnM_def fullWallet_def
      exampleEnv_def examplePlayingState_def initialHookState_def cardHandles_def Let_def
      bindM_def perform_def examplePlayer_def exampleHand_def decryptMyCardsStart_def)

text \<open>
  C1 (the code departs from the claim): a second invocation of \<open>decryptMyCards\<close> that
  starts while the first is in flight is not a no-op. On one render of a game in
  progress with an undecrypted hand, the page's trigger and the hook's trigger both
  fire. The first call sets \<open>isDecryptingCards\<close> and awaits the player fetch. The second
  call, started in that state, does not test the flag: run on its own it returns the
  decrypted card instead of the empty list; and when the two calls are resumed one after
  the other, the player record is fetched twice, the access-grant transaction is signed
  and submitted twice, and the card is appended to \<open>myCards\<close> twice.
\<close>

theorem C1_second_invocation_runs_pipeline:
  "pageAutoDecryptGuard (fullWallet ''alice'') examplePlayingState \<and>
   autoDecryptEffect (exampleEnv exampleTable examplePlayer) (fullWallet ''alice'') ''7''
       examplePlayingState
     = snd (decryptMyCards (exampleEnv exampleTable examplePlayer) (fullWallet ''alice'') ''7''
         examplePlayingState) \<and>
   isDecryptingCards (decryptMyCardsStart (fullWallet ''alice'') ''7'' examplePlayingState) \<and>
   fst (decryptMyCards (exampleEnv exampleTable examplePlayer) (fullWallet ''alice'') ''7''
     (decryptMyCardsStart (fullWallet ''alice'') ''7'' examplePlayingState))
     = [\<lparr> shape = 1, value = 12 \<rparr>] \<and>
   effects (snd (decryptMyCardsResume (exampleEnv exampleTable examplePlayer)
       (fullWallet ''alice'') ''7''
     (snd (decryptMyCardsResume (exampleEnv exampleTable examplePlayer)
       (fullWallet ''alice'') ''7''
       (decryptMyCardsStart (fullWallet ''alice'') ''7''
         (decryptMyCardsStart (fullWallet ''alice'') ''7'' examplePlayingState))))))
     = [FetchPlayerAccount (PlayerAddress ''7'' ''alice''),
        FetchPlayerAccount (PlayerAddress ''7'' ''alice''),
        GetLatestBlockhash,
        SignTransaction (grantCardAccessTx ''7'' ''alice'' exampleHand),
        SendRawTransaction (grantCardAccessTx ''7'' ''alice'' exampleHand),
        ConfirmTransaction ''sigGrant'', Wait 3000, Decrypt ''5'' ''9'',
        GetLatestBlockhash,
        SignTransaction (grantCardAccessTx ''7'' ''alice'' exampleHand),
        SendRawTransaction (grantCardAccessTx ''7'' ''alice'' exampleHand),
        ConfirmTransaction ''sigGrant'', Wait 3000, Decrypt ''5'' ''9''] \<and>
   myCards (snd (decryptMyCardsResume (exampleEnv exampleTable examplePlayer)
       (fullWallet ''alice'') ''7''
     (snd (decryptMyCardsResume (exampleEnv exampleTable examplePlayer)
       (fullWallet ''alice'') ''7''
       (decryptMyCardsStart (fullWallet ''alice'') ''7''
         (decryptMyCardsStart (fullWallet ''alice'') ''7'' examplePlayingState))))))
     = [\<lparr> shape = 1, value = 12 \<rparr>, \<lparr> shape = 1, value = 12 \<rparr>]"
  using example_page_trigger example_hook_trigger [of "exampleEnv exampleTable examplePlayer"]
    example_first_in_flight example_second_result example_both_effects example_both_cards
  by simp

theorem C1_second_invocation_runs_pipeline_witness:
  "fst (decryptMyCards (exampleEnv exampleTable examplePlayer) (fullWallet ''alice'') ''7''
     (decryptMyCardsStart (fullWallet ''alice'') ''7'' examplePlayingState)) \<noteq> [] \<and>
   length (myCards (snd (decryptMyCardsResume (exampleEnv exampleTable examplePlayer)
       (fullWallet ''alice'') ''7''
     (snd (decryptMyCardsResume (exampleEnv exampleTable examplePlayer)
       (fullWallet ''alice'') ''7''
       (decryptMyCardsStart (fullWallet ''alice'') ''7''
         (decryptMyCardsStart (fullWallet ''alice'') ''7'' examplePlayingState))))))) = 2"
  using C1_second_invocation_runs_pipeline by simp

text \<open>
  C8 (as stated, refuted): with an empty held-card list the pipeline completes: it
  returns the empty list and leaves the failure flag unset.
\<close>

theorem C8_empty_hand_counterexample:
  "fst (decryptMyCards
     (exampleEnv exampleTable emptyHandedPlayer)
     (fullWallet ''alice'') ''7'' (initialHookState Map.empty)) = [] \<and>
   decryptFailed (snd (decryptMyCards
     (exampleEnv exampleTable emptyHandedPlayer)
     (fullWallet ''alice'') ''7'' (initialHookState Map.empty))) = False"
  by (simp add: decryptMyCards_def decryptBody_def returnM_def fullWallet_def exampleEnv_def
      initialHookState_def Let_def perform_bind emptyHandedPlayer_def)

text \<open>
  C8 (amended): when the pipeline, called with a fully connected wallet, fetches the
  caller's player record and the held-card list is empty, it returns the empty list as a
  normal completion: the only call it makes is the fetch of the player record, no
  access-grant transaction is built or submitted, \<open>isDecryptingCards\<close> is reset and
  the failure flag \<open>decryptFailed\<close> is left as it was.
\<close>

theorem C8_empty_hand_returns_empty:
  "publicKey w = Some pk \<Longrightarrow> signMessage w \<Longrightarrow> signTransaction w \<Longrightarrow> anchorWallet w \<Longrightarrow>
   sendTransaction w \<Longrightarrow>
   rpcFetchPlayer env (PlayerAddress tid pk) = Inr playerAccount \<Longrightarrow>
   oc_cards playerAccount = Some [] \<Longrightarrow>
   decryptMyCards env w tid st =
     ([], st\<lparr> effects := effects st @ [FetchPlayerAccount (PlayerAddress tid pk)],
             isDecryptingCards := False \<rparr>) \<and>
   decryptFailed (snd (decryptMyCards env w tid st)) = decryptFailed st"
  by (simp add: decryptMyCards_def decryptBody_def returnM_def perform_bind)

theorem C8_empty_hand_returns_empty_witness:
  "publicKey (fullWallet ''alice'') = Some ''alice'' \<and>
   rpcFetchPlayer (exampleEnv exampleTable emptyHandedPlayer) (PlayerAddress ''7'' ''alice'')
     = Inr emptyHandedPlayer \<and>
   oc_cards emptyHandedPlayer = Some [] \<and>
   decryptMyCards (exampleEnv exampleTable emptyHandedPlayer) (fullWallet ''alice'') ''7''
     examplePlayingState
   = ([], examplePlayingState
            \<lparr> effects := [FetchPlayerAccount (PlayerAddress ''7'' ''alice'')],
              isDecryptingCards := False \<rparr>) \<and>
   decryptFailed (snd (decryptMyCards (exampleEnv exampleTable emptyHandedPlayer)
     (fullWallet ''alice'') ''7'' examplePlayingState)) = False"
proof -
  let ?env = "exampleEnv exampleTable emptyHandedPlayer"
  let ?w = "fullWallet ''alice''"
  have pk: "publicKey ?w = Some ''alice''" and sm: "signMessage ?w"
    and st: "signTransaction ?w" and aw: "anchorWallet ?w" and sendt: "sendTransaction ?w"
    by (simp_all add: fullWallet_def)
  have fetch: "rpcFetchPlayer ?env (PlayerAddress ''7'' ''alice'') = Inr emptyHandedPlayer"
    by (simp add: exampleEnv_def)
  have hand: "oc_cards emptyHandedPlayer = Some []"
    by (simp add: emptyHandedPlayer_def)
  have eff0: "effects examplePlayingState = []" and df0: "\<not> decryptFailed examplePlayingState"
    by (simp_all add: examplePlayingState_def initialHookState_def)
  from C8_empty_hand_returns_empty [OF pk sm st aw sendt fetch hand, of examplePlayingState]
  show ?thesis using pk fetch hand eff0 df0 by simp
qed

text \<open>
  C10 (as stated, refuted): a caller whose player account exists and who selects the
  character that the table data already lists for that caller is turned away by the
  character check: \<open>joinTable\<close> returns false and sets the error string, before any
  account lookup.
\<close>

theorem C10_taken_character_counterexample:
  "rpcGetAccountInfo
     (exampleEnv exampleTable emptyHandedPlayer)
     (PlayerAddress ''7'' ''alice'') = Inr True \<and>
   joinTable
     (exampleEnv exampleTable emptyHandedPlayer)
     (fullWallet ''alice'') ''7'' ''bull''
     ((initialHookState Map.empty)\<lparr> tableData := Some exampleTableData \<rparr>)
   = (False,
      (initialHookState Map.empty)
        \<lparr> tableData := Some exampleTableData,
          error := Some ''This character is already taken by another player'' \<rparr>)"
  by (simp add: joinTable_def fullWallet_def exampleEnv_def takenCharacters_def
      exampleTableData_def initialHookState_def)

text \<open>
  C10 (amended): for every call to \<open>joinTable\<close> that passes the wallet check, the
  character-selected check and the character-not-taken check, and in which the lookup of
  the caller's player account returns an existing account, \<open>joinTable\<close> returns true
  without building, simulating, signing or submitting any transaction; it clears the
  error string and refetches the table state, so that after the call the error string is
  what the refetch leaves: cleared when the refetch succeeds, the refetch's message
  when it fails.
\<close>

theorem C10_join_existing_account:
  "publicKey w = Some pk \<Longrightarrow> anchorWallet w \<Longrightarrow> sendTransaction w \<Longrightarrow> cid \<noteq> [] \<Longrightarrow>
   Some cid \<notin> set (takenCharacters st) \<Longrightarrow>
   rpcGetAccountInfo env (PlayerAddress tid pk) = Inr True \<Longrightarrow>
   joinTable env w tid cid st =
     (True, (fetchTable env w tid False
              (st\<lparr> isJoining := True, error := None,
                    effects := effects st @ [GetAccountInfo (PlayerAddress tid pk)] \<rparr>))
            \<lparr> isJoining := False \<rparr>) \<and>
   filter isTransactionEffect (effects (snd (joinTable env w tid cid st)))
     = filter isTransactionEffect (effects st) \<and>
   error (snd (joinTable env w tid cid st)) =
     (case rpcGetAccountInfo env (getTableAddress tid) of
        Inl e \<Rightarrow> Some (messageOr e ''Failed to fetch table'')
      | Inr found \<Rightarrow>
          if \<not> found then Some ''Table not found''
          else (case rpcFetchTable env (getTableAddress tid) of
                  Inl e \<Rightarrow> Some (messageOr e ''Failed to fetch table'')
                | Inr table \<Rightarrow> None))"
proof -
  assume pk: "publicKey w = Some pk" and aw: "anchorWallet w" and sendt: "sendTransaction w"
    and cid: "cid \<noteq> []" and free: "Some cid \<notin> set (takenCharacters st)"
    and ex: "rpcGetAccountInfo env (PlayerAddress tid pk) = Inr True"
  let ?st1 = "st\<lparr> isJoining := True, error := None,
                  effects := effects st @ [GetAccountInfo (PlayerAddress tid pk)] \<rparr>"
  have res: "joinTable env w tid cid st
      = (True, (fetchTable env w tid False ?st1)\<lparr> isJoining := False \<rparr>)"
    using pk aw sendt cid free ex
    by (simp add: joinTable_def joinTableBody_def Let_def perform_bind)
  have eff: "filter isTransactionEffect (effects (snd (joinTable env w tid cid st)))
      = filter isTransactionEffect (effects st)"
    using fetchTable_transaction_effects [of env w tid False ?st1] by (simp add: res)
  have er: "error (snd (joinTable env w tid cid st)) = error (fetchTable env w tid False ?st1)"
    by (simp add: res)
  show ?thesis using res eff er fetchTable_error [OF aw, of env tid ?st1] by simp
qed

theorem C10_join_existing_account_witness:
  "rpcGetAccountInfo (exampleEnv exampleTable examplePlayer) (PlayerAddress ''7'' ''alice'')
     = Inr True \<and>
   Some ''bull'' \<notin> set (takenCharacters (initialHookState Map.empty)) \<and>
   fst (joinTable (exampleEnv exampleTable examplePlayer) (fullWallet ''alice'') ''7'' ''bull''
     (initialHookState Map.empty)) = True \<and>
   error (snd (joinTable (exampleEnv exampleTable examplePlayer) (fullWallet ''alice'') ''7''
     ''bull'' (initialHookState Map.empty))) = None \<and>
   effects (snd (joinTable (exampleEnv exampleTable examplePlayer) (fullWallet ''alice'') ''7''
     ''bull'' (initialHookState Map.empty)))
   = [GetAccountInfo (PlayerAddress ''7'' ''alice''), GetAccountInfo (TableAddress ''7''),
      FetchTableAccount (TableAddress ''7''),
      FetchPlayerAccount (PlayerAddress ''7'' ''alice'')]"
proof -
  let ?env = "exampleEnv exampleTable examplePlayer"
  let ?w = "fullWallet ''alice''"
  let ?st = "initialHookState Map.empty"
  have pk: "publicKey ?w = Some ''alice''" and aw: "anchorWallet ?w"
    and sendt: "sendTransaction ?w"
    by (simp_all add: fullWallet_def)
  have cid: "''bull'' \<noteq> []" by simp
  have free: "Some ''bull'' \<notin> set (takenCharacters ?st)"
    by (simp add: takenCharacters_def initialHookState_def)
  have ex: "rpcGetAccountInfo ?env (PlayerAddress ''7'' ''alice'') = Inr True"
    by (simp add: exampleEnv_def)
  have refetch: "effects (fetchTable ?env ?w ''7'' False
      (?st\<lparr> isJoining := True, error := None,
            effects := effects ?st @ [GetAccountInfo (PlayerAddress ''7'' ''alice'')] \<rparr>))
    = [GetAccountInfo (PlayerAddress ''7'' ''alice''), GetAccountInfo (TableAddress ''7''),
       FetchTableAccount (TableAddress ''7''),
       FetchPlayerAccount (PlayerAddress ''7'' ''alice'')]"
    by (simp add: fetchTable_def fetchTableBody_def applyTable_def returnM_def Let_def
        perform_bind exampleEnv_def exampleTable_def fullWallet_def initialHookState_def
        getTableAddress_def)
  note joined = C10_join_existing_account [OF pk aw sendt cid free ex]
  have res: "joinTable ?env ?w ''7'' ''bull'' ?st
      = (True, (fetchTable ?env ?w ''7'' False
          (?st\<lparr> isJoining := True, error := None,
                effects := effects ?st @ [GetAccountInfo (PlayerAddress ''7'' ''alice'')] \<rparr>))
          \<lparr> isJoining := False \<rparr>)"
    by (rule joined [THEN conjunct1])
  have r1: "fst (joinTable ?env ?w ''7'' ''bull'' ?st) = True"
    by (simp add: res)
  have r2: "error (snd (joinTable ?env ?w ''7'' ''bull'' ?st)) = None"
    using joined [THEN conjunct2, THEN conjunct2]
    by (simp add: exampleEnv_def getTableAddress_def)
  have r3: "effects (snd (joinTable ?env ?w ''7'' ''bull'' ?st))
    = [GetAccountInfo (PlayerAddress ''7'' ''alice''), GetAccountInfo (TableAddress ''7''),
       FetchTableAccount (TableAddress ''7''),
       FetchPlayerAccount (PlayerAddress ''7'' ''alice'')]"
    using refetch by (simp add: res)
  show ?thesis using free ex r1 r2 r3 by blast
qed

end
